theory Spec2Isabelle
  imports Main "HOL-Library.Sublist" "HOL-Library.Log_Nat"
begin

section \<open>Shallow embedding of populate\_swatches.py\<close>

text \<open>
  The script extracts square swatch images from a brochure PDF. Its pure helpers
  (\<open>norm\<close>, \<open>detect_series\<close>, \<open>is_square_swatch\<close>, \<open>nearest_color_label\<close>) are
  embedded as HOL functions; the driver \<open>main\<close> is embedded as a state-passing function
  over a record that logs every effect the script has (directories ensured, pixmaps
  decoded, files saved, the two counters). What the PyMuPDF library answers is data of
  the model: a \<open>document\<close> record holds one field per library call of the script.

  Strings are ASCII text (\<open>char list\<close>). Python exceptions are values of \<open>py_error\<close>;
  a function that can raise returns \<open>py_error + 'a\<close> with \<open>Inl\<close> for the exception.
\<close>

datatype py_error = AttributeError | KeyError | FitzError

subsection \<open>Taxonomy (lines 18--42)\<close>

definition PDF_PATH :: string where
  "PDF_PATH = ''assets/brochure.pdf''"

text \<open>The dict \<open>SERIES_COLORS\<close>, in insertion order (which \<open>keys()\<close> preserves).\<close>

definition SERIES_COLORS :: "(string \<times> string list) list" where
  "SERIES_COLORS =
   [(''Timberline HDZ'',
       [''Barkwood'', ''Charcoal'', ''Hickory'', ''Hunter Green'', ''Mission Brown'', ''Pewter Gray'',
        ''Shakewood'', ''Slate'', ''Weathered Wood'', ''Appalachian Sky'', ''Nantucket Morning'',
        ''Golden Harvest'', ''Cedar Falls'', ''Biscayne Blue'', ''Birchwood'', ''Copper Canyon'',
        ''Driftwood'', ''Fox Hollow Gray'', ''Golden Amber'', ''Oyster Gray'', ''Patriot Red'',
        ''Sunset Brick'', ''Williamsburg Slate'']),
    (''Timberline UHDZ'',
       [''Barkwood'', ''Charcoal'', ''Pewter Gray'', ''Shakewood'', ''Slate'', ''Weathered Wood'']),
    (''Timberline NS'',
       [''Weathered Wood'', ''Barkwood'', ''Charcoal'', ''Pewter Gray'', ''Shakewood'', ''Slate'',
        ''Hickory'']),
    (''Grand Sequoia'',
       [''Charcoal'', ''Autumn Brown'', ''Weathered Wood'', ''Cedar Mesa Brown'']),
    (''Camelot II'',
       [''Weathered Timber'', ''Antique Slate'', ''Charcoal'', ''Barkwood'', ''Royal Slate'']),
    (''Woodland'', [''Cedarwood Abbey'', ''Castlewood Gray'']),
    (''Slateline'',
       [''Royal Slate'', ''Antique Slate'', ''English Gray'', ''Weathered Slate'']),
    (''Timberline AS II'',
       [''Charcoal'', ''Dusky Gray'', ''Weathered Wood'', ''Hickory'', ''Adobe Sunset'',
        ''Pewter Gray'', ''Barkwood'', ''Shakewood'', ''Slate'']),
    (''Grand Sequoia AS'', [''Charcoal'', ''Dusky Gray'', ''Weathered Wood'']),
    (''Timberline HDZ RS'',
       [''Sagewood'', ''Stone Gray'', ''Hickory'', ''Aged Chestnut'', ''Coastal Slate'',
        ''Sandalwood'', ''Charcoal'']),
    (''Grand Sequoia RS'',
       [''Sandalwood'', ''Ocean Gray'', ''Charcoal'', ''Forest Brown'', ''Sagewood'']),
    (''Royal Sovereign'', [''Charcoal'', ''Weathered Gray''])]"

definition SERIES_NAMES :: "string list" where
  "SERIES_NAMES = map fst SERIES_COLORS"

text \<open>
  \<open>str.lower()\<close> and the whitespace class of \<open>str.isspace\<close> / the regex \<open>\s\<close>, on
  ASCII: tab, line feed, vertical tab, form feed, carriage return, the four separators
  0x1C--0x1F and the space.
\<close>

definition lower_char :: "char \<Rightarrow> char" where
  "lower_char c =
     (if 65 \<le> (of_char c :: nat) \<and> (of_char c :: nat) \<le> 90
      then char_of ((of_char c :: nat) + 32) else c)"

definition lower :: "string \<Rightarrow> string" where
  "lower s = map lower_char s"

definition is_space :: "char \<Rightarrow> bool" where
  "is_space c =
     (c \<in> set [CHR 0x09, CHR 0x0A, CHR 0x0B, CHR 0x0C, CHR 0x0D,
                CHR 0x1C, CHR 0x1D, CHR 0x1E, CHR 0x1F, CHR '' ''])"

definition ALL_COLOR_LOWER :: "string set" where
  "ALL_COLOR_LOWER = set (concat (map (\<lambda>(series, colors). map lower colors) SERIES_COLORS))"

subsection \<open>Text normalizer and series detector (lines 44--53)\<close>

text \<open>\<open>re.sub(r"\s+", " ", s)\<close>: every maximal run of whitespace becomes one space.\<close>

function collapse_ws :: "string \<Rightarrow> string" where
  "collapse_ws [] = []"
| "collapse_ws (c # cs) =
     (if is_space c then CHR '' '' # collapse_ws (dropWhile is_space cs)
      else c # collapse_ws cs)"
  by pat_completeness auto
termination
  by (relation "measure length") (auto simp: length_dropWhile_le less_Suc_eq_le)

definition strip :: "string \<Rightarrow> string" where
  "strip s = rev (dropWhile is_space (rev (dropWhile is_space s)))"

text \<open>
  \<open>norm(s)\<close>. The argument may be \<open>None\<close>: \<open>s or ""\<close> turns \<open>None\<close> (and the empty
  string) into the empty string. The name \<open>norm\<close> is taken in HOL.
\<close>

definition norm_text :: "string option \<Rightarrow> string" where
  "norm_text s = lower (strip (collapse_ws (case s of None \<Rightarrow> [] | Some t \<Rightarrow> t)))"

text \<open>
  \<open>sorted(xs, key=len, reverse=True)\<close>. CPython sorts in reverse by reversing the list,
  sorting it stably in ascending order and reversing the result, so elements of equal
  length keep their original order.
\<close>

definition sorted_len_reverse :: "string list \<Rightarrow> string list" where
  "sorted_len_reverse xs = rev (sort_key length (rev xs))"

text \<open>Python's \<open>a in b\<close> on strings is \<^const>\<open>sublist\<close> (a contiguous part).\<close>

definition detect_series :: "string option \<Rightarrow> string option" where
  "detect_series page_text =
     (let t = norm_text page_text
      in find (\<lambda>series. sublist (norm_text (Some series)) t) (sorted_len_reverse SERIES_NAMES))"

subsection \<open>IEEE-754 binary64 arithmetic\<close>

text \<open>
  Python floats are binary64 numbers. A finite float is a rational; every arithmetic
  operation returns the exact result rounded to the nearest float, ties to even.
  \<open>binexp x\<close> is the binary exponent \<open>\<lfloor>log\<^sub>2 |x|\<rfloor>\<close>; below \<open>2\<^sup>-\<^sup>1\<^sup>0\<^sup>2\<^sup>2\<close> the spacing of the
  floats stays \<open>2\<^sup>-\<^sup>1\<^sup>0\<^sup>7\<^sup>4\<close> (subnormal numbers). Overflow to infinity is outside the model:
  it needs magnitudes of \<open>2\<^sup>1\<^sup>0\<^sup>2\<^sup>4\<close>, which neither pixel dimensions nor page coordinates
  reach.
\<close>

definition round_half_even :: "rat \<Rightarrow> int" where
  "round_half_even q =
     (let f = \<lfloor>q\<rfloor>; r = q - of_int f
      in if r < 1 / 2 then f else if 1 / 2 < r then f + 1 else if even f then f else f + 1)"

definition binexp :: "rat \<Rightarrow> int" where
  "binexp x =
     (let (a, b) = quotient_of \<bar>x\<bar>; d = bitlen a - bitlen b
      in if 2 powi d \<le> \<bar>x\<bar> then d else d - 1)"

definition fl64 :: "rat \<Rightarrow> rat" where
  "fl64 x =
     (let e = max (binexp x) (- 1022)
      in of_int (round_half_even (x * 2 powi (52 - e))) * 2 powi (e - 52))"

definition fadd :: "rat \<Rightarrow> rat \<Rightarrow> rat" where
  "fadd a b = fl64 (a + b)"

definition fsub :: "rat \<Rightarrow> rat \<Rightarrow> rat" where
  "fsub a b = fl64 (a - b)"

definition fdiv :: "rat \<Rightarrow> rat \<Rightarrow> rat" where
  "fdiv a b = fl64 (a / b)"

text \<open>\<open>x ** 2\<close> on a float: the square, rounded.\<close>

definition fsquare :: "rat \<Rightarrow> rat" where
  "fsquare a = fl64 (a * a)"

subsection \<open>Geometry filter (lines 55--61)\<close>

text \<open>
  A \<open>fitz.Pixmap\<close>: the attributes the script reads (\<open>width\<close>, \<open>height\<close>, \<open>n\<close>) and a
  tag standing for the pixel samples.
\<close>

record pixmap =
  pix_width :: int
  pix_height :: int
  pix_n :: int
  pix_samples :: nat

text \<open>
  \<open>w / float(h)\<close> converts both integers to floats and divides; \<open>0.85\<close> and \<open>1.18\<close>
  are the floats nearest to these decimals. The division is only reached with
  \<open>h \<ge> 180\<close>, so it cannot raise \<open>ZeroDivisionError\<close>.
\<close>

definition is_square_swatch :: "pixmap \<Rightarrow> bool" where
  "is_square_swatch pix =
     (let w = pix_width pix; h = pix_height pix
      in if w < 180 \<or> h < 180 then False
         else let ar = fdiv (fl64 (of_int w)) (fl64 (of_int h))
              in fl64 (85 / 100) \<le> ar \<and> ar \<le> fl64 (118 / 100))"

subsection \<open>Color locator (lines 63--85)\<close>

text \<open>
  A \<open>fitz.Rect\<close> with the attributes the script reads, and a word tuple
  \<open>(x0, y0, x1, y1, txt, ...)\<close>. Python does not type the tuple: its text may be any
  object, and \<open>None\<close> is the absent text.
\<close>

record rect =
  rect_x0 :: rat
  rect_y0 :: rat
  rect_width :: rat
  rect_height :: rat

record word =
  word_x0 :: rat
  word_y0 :: rat
  word_x1 :: rat
  word_y1 :: rat
  word_text :: "string option"

text \<open>Lines 67 and 78: the centre of the rectangle and of a word's box.\<close>

definition rect_center :: "rect \<Rightarrow> rat \<times> rat" where
  "rect_center r =
     (fadd (rect_x0 r) (fdiv (rect_width r) 2), fadd (rect_y0 r) (fdiv (rect_height r) 2))"

definition word_center :: "word \<Rightarrow> rat \<times> rat" where
  "word_center w =
     (fdiv (fadd (word_x0 w) (word_x1 w)) 2, fdiv (fadd (word_y0 w) (word_y1 w)) 2)"

text \<open>Line 72: the vocabulary. An empty list is falsy, like \<open>None\<close>.\<close>

definition allowed_set :: "string list option \<Rightarrow> string set" where
  "allowed_set allowed_colors =
     (case allowed_colors of
        None \<Rightarrow> ALL_COLOR_LOWER
      | Some cs \<Rightarrow> if cs = [] then ALL_COLOR_LOWER else set (map (\<lambda>c. norm_text (Some c)) cs))"

text \<open>
  Lines 80--81: the offsets of a word's centre from the centre \<open>c\<close> of the rectangle
  (\<open>wx - cx\<close> and \<open>wy - cy\<close>) and the squared distance \<open>d\<close>.
\<close>

definition offset_x :: "rat \<times> rat \<Rightarrow> word \<Rightarrow> rat" where
  "offset_x c w = fsub (fst (word_center w)) (fst c)"

definition offset_y :: "rat \<times> rat \<Rightarrow> word \<Rightarrow> rat" where
  "offset_y c w = fsub (snd (word_center w)) (snd c)"

definition dist2 :: "rat \<times> rat \<Rightarrow> word \<Rightarrow> rat" where
  "dist2 c w = fadd (fsquare (offset_x c w)) (fsquare (offset_y c w))"

text \<open>
  The loop of lines 74--84 over the pair \<open>(best_text, best_d)\<close>. \<open>txt.strip()\<close> raises
  \<open>AttributeError\<close> when \<open>txt\<close> is \<open>None\<close>.
\<close>

fun label_loop ::
  "string set \<Rightarrow> rat \<times> rat \<Rightarrow> word list \<Rightarrow> string option \<times> rat \<Rightarrow> py_error + (string option \<times> rat)"
where
  "label_loop allowed c [] best = Inr best"
| "label_loop allowed c (w # ws) best =
     (case word_text w of
        None \<Rightarrow> Inl AttributeError
      | Some t \<Rightarrow>
          let raw = strip t; nm = norm_text (Some raw)
          in if nm \<in> allowed then
               if \<bar>offset_y c w\<bar> < 260 \<and> \<bar>offset_x c w\<bar> < 260 then
                 let d = dist2 c w
                 in if d < snd best then label_loop allowed c ws (Some raw, d)
                    else label_loop allowed c ws best
               else label_loop allowed c ws best
             else label_loop allowed c ws best)"

definition nearest_color_label ::
  "word list \<Rightarrow> rect \<Rightarrow> string list option \<Rightarrow> py_error + string option"
where
  "nearest_color_label words r allowed_colors =
     (if words = [] then Inr None
      else case label_loop (allowed_set allowed_colors) (rect_center r) words (None, 10 ^ 12) of
             Inl e \<Rightarrow> Inl e
           | Inr best \<Rightarrow> Inr (fst best))"

subsection \<open>The document, as the library presents it\<close>

text \<open>
  A word as \<open>page.get_text("words")\<close> returns it: the library always supplies a string
  as the text. \<open>word_of\<close> is that tuple seen as the untyped tuple of the locator.
\<close>

record pdf_word =
  pw_x0 :: rat
  pw_y0 :: rat
  pw_x1 :: rat
  pw_y1 :: rat
  pw_text :: string

definition word_of :: "pdf_word \<Rightarrow> word" where
  "word_of p =
     \<lparr>word_x0 = pw_x0 p, word_y0 = pw_y0 p, word_x1 = pw_x1 p, word_y1 = pw_y1 p,
      word_text = Some (pw_text p)\<rparr>"

text \<open>
  One field per library call of the script. Calls that the script wraps in
  \<open>try ... except Exception\<close> may answer with an exception (\<open>Inl\<close>); the calls it does
  not guard are taken to return. The document is fixed during a run, so a call with the
  same arguments gives the same answer.

  \<^item> \<open>doc_exists\<close>: \<open>os.path.exists(PDF_PATH)\<close>
  \<^item> \<open>doc_len\<close>: \<open>len(doc)\<close>, the number of pages
  \<^item> \<open>doc_page_text p\<close>: \<open>doc[p].get_text()\<close>
  \<^item> \<open>doc_page_words p\<close>: \<open>doc[p].get_text("words")\<close>
  \<^item> \<open>doc_xref_length\<close>: \<open>doc.xref_length()\<close>
  \<^item> \<open>doc_subtype x\<close>: \<open>doc.xref_get_key(x, "Subtype")[1]\<close>
  \<^item> \<open>doc_image_rects p x\<close>: \<open>doc[p].get_image_rects(x)\<close>
  \<^item> \<open>doc_pixmap x\<close>: \<open>fitz.Pixmap(doc, x)\<close>
  \<^item> \<open>doc_to_rgb pix\<close>: \<open>fitz.Pixmap(fitz.csRGB, pix)\<close>
  \<^item> \<open>doc_drop_alpha pix\<close>: \<open>fitz.Pixmap(pix, 0)\<close>
\<close>

record document =
  doc_exists :: bool
  doc_len :: nat
  doc_page_text :: "nat \<Rightarrow> string"
  doc_page_words :: "nat \<Rightarrow> pdf_word list"
  doc_xref_length :: nat
  doc_subtype :: "nat \<Rightarrow> py_error + string option"
  doc_image_rects :: "nat \<Rightarrow> nat \<Rightarrow> rect list"
  doc_pixmap :: "nat \<Rightarrow> py_error + pixmap"
  doc_to_rgb :: "pixmap \<Rightarrow> py_error + pixmap"
  doc_drop_alpha :: "pixmap \<Rightarrow> pixmap"

subsection \<open>The effects of a run\<close>

text \<open>
  \<open>dirs\<close> is the set of directories that exist, \<open>writes\<close> the log of \<open>pix.save\<close> calls
  (path and pixmap written, oldest first), \<open>decodes\<close> the log of \<open>fitz.Pixmap(doc, xref)\<close>
  calls (the xref decoded, oldest first); the two counters are the script's.
\<close>

record run_state =
  dirs :: "string set"
  writes :: "(string \<times> pixmap) list"
  decodes :: "nat list"
  saved_swatches :: nat
  saved_raw :: nat

text \<open>How a run ends: the exit status and the lines printed, with the final state.\<close>

record outcome =
  exit_code :: int
  printed :: "string list"
  final :: run_state

subsection \<open>Paths and number formatting\<close>

text \<open>\<open>str(n)\<close> for a natural number and for an integer; \<open>{n:02d}\<close> pads to two digits.\<close>

definition digit_char :: "nat \<Rightarrow> char" where
  "digit_char d = char_of (48 + d)"

fun dec :: "nat \<Rightarrow> string" where
  "dec n = (if n < 10 then [digit_char n] else dec (n div 10) @ [digit_char (n mod 10)])"

declare dec.simps [simp del]

definition str_int :: "int \<Rightarrow> string" where
  "str_int i = (if i < 0 then CHR ''-'' # dec (nat (- i)) else dec (nat i))"

definition fmt_02d :: "nat \<Rightarrow> string" where
  "fmt_02d n = (if n < 10 then CHR ''0'' # dec n else dec n)"

text \<open>\<open>os.path.join(a, b)\<close> of \<open>posixpath\<close>: an absolute second part replaces the first.\<close>

definition path_join :: "string \<Rightarrow> string \<Rightarrow> string" where
  "path_join a b =
     (if prefix ''/'' b then b
      else if a = [] \<or> suffix ''/'' a then a @ b
      else a @ ''/'' @ b)"

subsection \<open>Extraction driver (lines 87--176)\<close>

definition ensure_dir :: "string \<Rightarrow> run_state \<Rightarrow> run_state" where
  "ensure_dir p st = st\<lparr>dirs := insert p (dirs st)\<rparr>"

text \<open>
  Lines 115--121. \<open>saveable\<close> is the pixmap that \<open>pix.save\<close> is called on:
  \<open>except Exception\<close> swallows the failure of the RGB conversion.
\<close>

definition saveable :: "document \<Rightarrow> pixmap \<Rightarrow> pixmap" where
  "saveable doc pix =
     (if pix_n pix \<ge> 4 then
        (case doc_to_rgb doc pix of Inr converted \<Rightarrow> converted | Inl e \<Rightarrow> doc_drop_alpha doc pix)
      else pix)"

definition save_pixmap :: "document \<Rightarrow> pixmap \<Rightarrow> string \<Rightarrow> run_state \<Rightarrow> run_state" where
  "save_pixmap doc pix out_path st = st\<lparr>writes := writes st @ [(out_path, saveable doc pix)]\<rparr>"

text \<open>
  The test \<open>series_hint and color_guess\<close> of lines 157 and 166: both are present and
  non-empty. The result carries the two strings when the test succeeds.
\<close>

definition confident :: "string option \<Rightarrow> string option \<Rightarrow> (string \<times> string) option" where
  "confident series_hint color_guess =
     (case series_hint of
        None \<Rightarrow> None
      | Some s \<Rightarrow>
          if s = [] then None
          else (case color_guess of
                  None \<Rightarrow> None
                | Some c \<Rightarrow> if c = [] then None else Some (s, c)))"

text \<open>Line 162: the name of a fallback file.\<close>

definition raw_name :: "nat \<Rightarrow> nat \<Rightarrow> pixmap \<Rightarrow> string" where
  "raw_name pidx xref pix =
     ''page'' @ fmt_02d pidx @ ''_xref'' @ dec xref @ ''_w'' @ str_int (pix_width pix)
       @ ''_h'' @ str_int (pix_height pix) @ ''.png''"

text \<open>Line 154: \<open>SERIES_COLORS.get(series_hint) if series_hint else None\<close>.\<close>

definition colors_for :: "string option \<Rightarrow> string list option" where
  "colors_for series_hint =
     (case series_hint of
        None \<Rightarrow> None
      | Some s \<Rightarrow> if s = [] then None else map_of SERIES_COLORS s)"

text \<open>Lines 149--169: the body of the loop over the rectangles of one page.\<close>

definition process_rect ::
  "document \<Rightarrow> string option \<Rightarrow> word list \<Rightarrow> nat \<Rightarrow> nat \<Rightarrow> pixmap \<Rightarrow> rect \<Rightarrow> run_state
     \<Rightarrow> py_error + run_state"
where
  "process_rect doc series_hint words pidx xref pix r st =
     (if \<not> is_square_swatch pix then Inr st
      else
        case nearest_color_label words r (colors_for series_hint) of
          Inl e \<Rightarrow> Inl e
        | Inr color_guess \<Rightarrow>
            (case confident series_hint color_guess of
               Some (s, c) \<Rightarrow>
                 let out_dir = path_join ''swatches'' s;
                     st1 = ensure_dir out_dir st;
                     out_path = path_join out_dir (c @ ''.png'');
                     st2 = save_pixmap doc pix out_path st1
                 in Inr (st2\<lparr>saved_swatches := saved_swatches st2 + 1\<rparr>)
             | None \<Rightarrow>
                 let out_dir = ''swatches_raw'';
                     out_path = path_join out_dir (raw_name pidx xref pix);
                     st2 = save_pixmap doc pix out_path st
                 in Inr (st2\<lparr>saved_raw := saved_raw st2 + 1\<rparr>)))"

text \<open>A \<open>for\<close> loop whose body may raise: the first exception ends the loop.\<close>

fun for_each :: "('a \<Rightarrow> 's \<Rightarrow> py_error + 's) \<Rightarrow> 'a list \<Rightarrow> 's \<Rightarrow> py_error + 's" where
  "for_each body [] st = Inr st"
| "for_each body (x # xs) st =
     (case body x st of Inl e \<Rightarrow> Inl e | Inr st' \<Rightarrow> for_each body xs st')"

text \<open>
  Lines 106--112: the two caches, dicts keyed by the page index. Reading a key that is
  not there raises \<open>KeyError\<close>.
\<close>

definition page_words_cache :: "document \<Rightarrow> nat \<rightharpoonup> pdf_word list" where
  "page_words_cache doc = map_of (map (\<lambda>pidx. (pidx, doc_page_words doc pidx)) [0..<doc_len doc])"

definition page_text_cache :: "document \<Rightarrow> nat \<rightharpoonup> string" where
  "page_text_cache doc = map_of (map (\<lambda>pidx. (pidx, doc_page_text doc pidx)) [0..<doc_len doc])"

text \<open>
  Lines 133--169: the body of the loop over the pages, for one image object. The pixmap
  is decoded here, inside the page loop; a failure to decode goes on to the next page.
  (The flag \<open>appeared\<close> only guards a \<open>continue\<close> at the very end of the outer loop body
  and has no effect.)
\<close>

definition process_page :: "document \<Rightarrow> nat \<Rightarrow> nat \<Rightarrow> run_state \<Rightarrow> py_error + run_state" where
  "process_page doc xref pidx st =
     (let rects = doc_image_rects doc pidx xref
      in if rects = [] then Inr st
         else
           case page_text_cache doc pidx of
             None \<Rightarrow> Inl KeyError
           | Some page_text \<Rightarrow>
               let series_hint = detect_series (Some page_text)
               in (case page_words_cache doc pidx of
                     None \<Rightarrow> Inl KeyError
                   | Some words \<Rightarrow>
                       let st1 = st\<lparr>decodes := decodes st @ [xref]\<rparr>
                       in (case doc_pixmap doc xref of
                             Inl e \<Rightarrow> Inr st1
                           | Inr pix \<Rightarrow>
                               for_each (process_rect doc series_hint (map word_of words) pidx xref pix)
                                 rects st1)))"

text \<open>Lines 123--173: the body of the loop over the xref table.\<close>

definition process_xref :: "document \<Rightarrow> nat \<Rightarrow> run_state \<Rightarrow> py_error + run_state" where
  "process_xref doc xref st =
     (case doc_subtype doc xref of
        Inl e \<Rightarrow> Inr st
      | Inr v \<Rightarrow>
          let subtype = (case v of None \<Rightarrow> [] | Some s \<Rightarrow> s)
          in if \<not> sublist ''/Image'' subtype then Inr st
             else for_each (process_page doc xref) [0..<doc_len doc] st)"

definition missing_message :: string where
  "missing_message =
     ''ERROR: '' @ PDF_PATH @ '' not found. Upload your brochure PDF to assets/brochure.pdf and re-run.''"

definition summary_message :: "nat \<Rightarrow> nat \<Rightarrow> string" where
  "summary_message matched unlabeled =
     ''Done. Matched swatches: '' @ dec matched @ '', Unlabeled (swatches_raw): '' @ dec unlabeled"

definition hint_message :: string where
  "hint_message =
     ''If any color is mis-labeled, rename the file in swatches/<Series>/ to the exact color text used in index.html.''"

text \<open>The state at the start of \<open>main\<close>: both counters are 0 and nothing is logged.\<close>

definition fresh_state :: "string set \<Rightarrow> run_state" where
  "fresh_state dirs0 =
     \<lparr>dirs = dirs0, writes = [], decodes = [], saved_swatches = 0, saved_raw = 0\<rparr>"

text \<open>
  \<open>main()\<close>, started in a file system whose directories are \<open>dirs0\<close>. \<open>sys.exit(1)\<close>
  ends the run with status 1; a run that reaches the end of \<open>main\<close> has status 0.
\<close>

definition main :: "document \<Rightarrow> string set \<Rightarrow> py_error + outcome" where
  "main doc dirs0 =
     (let st0 = fresh_state dirs0
      in if \<not> doc_exists doc then
           Inr \<lparr>exit_code = 1, printed = [missing_message], final = st0\<rparr>
         else
           let st1 = ensure_dir ''swatches_raw'' (ensure_dir ''swatches'' st0)
           in (case for_each (process_xref doc) [1..<doc_xref_length doc] st1 of
                 Inl e \<Rightarrow> Inl e
               | Inr st \<Rightarrow>
                   Inr \<lparr>exit_code = 0,
                        printed = [summary_message (saved_swatches st) (saved_raw st), hint_message],
                        final = st\<rparr>))"

subsection \<open>Words that qualify as a label\<close>



subsection \<open>What a run leaves behind\<close>

text \<open>
  For the statements about the driver: the number of writes below \<open>swatches/\<close> (the
  confident path) and below \<open>swatches_raw/\<close> (the fallback path), and everything of the
  state that is visible from outside, which is all but the log of decodes.
\<close>

definition confident_writes :: "run_state \<Rightarrow> nat" where
  "confident_writes st = length (filter (\<lambda>path. prefix ''swatches/'' path) (map fst (writes st)))"

definition fallback_writes :: "run_state \<Rightarrow> nat" where
  "fallback_writes st = length (filter (\<lambda>path. prefix ''swatches_raw/'' path) (map fst (writes st)))"

definition outputs :: "run_state \<Rightarrow> string set \<times> (string \<times> pixmap) list \<times> nat \<times> nat" where
  "outputs st = (dirs st, writes st, saved_swatches st, saved_raw st)"

subsection \<open>A small brochure\<close>

text \<open>
  A two-page document used to run the model. Object 1 has unreadable metadata, object 2
  is a 300 by 300 four-channel image placed on both pages, object 3 is an image on page 0
  whose pixel data cannot be decoded. Page 0 names the series Timberline HDZ and has the
  word Barkwood next to the tile; page 1 names no series and has no words. The conversion
  to RGB fails for every pixmap.
\<close>

definition swatch_pix :: pixmap where
  "swatch_pix = \<lparr>pix_width = 300, pix_height = 300, pix_n = 4, pix_samples = 7\<rparr>"

definition tile_rect :: rect where
  "tile_rect = \<lparr>rect_x0 = 50, rect_y0 = 50, rect_width = 100, rect_height = 100\<rparr>"

definition barkwood_word :: pdf_word where
  "barkwood_word =
     \<lparr>pw_x0 = 130, pw_y0 = 135, pw_x1 = 170, pw_y1 = 145, pw_text = ''Barkwood''\<rparr>"

definition textless_word :: word where
  "textless_word =
     \<lparr>word_x0 = 0, word_y0 = 0, word_x1 = 1, word_y1 = 1, word_text = None\<rparr>"


definition brochure :: document where
  "brochure =
     \<lparr>doc_exists = True,
      doc_len = 2,
      doc_page_text = (\<lambda>p. if p = 0 then ''GAF Timberline HDZ shingles'' else ''Accessories''),
      doc_page_words = (\<lambda>p. if p = 0 then [barkwood_word] else []),
      doc_xref_length = 4,
      doc_subtype =
        (\<lambda>x. if x = 1 then Inl FitzError
             else if x = 2 \<or> x = 3 then Inr (Some ''/Image'') else Inr None),
      doc_image_rects =
        (\<lambda>p x. if x = 2 then [tile_rect] else if x = 3 \<and> p = 0 then [tile_rect] else []),
      doc_pixmap = (\<lambda>x. if x = 2 then Inr swatch_pix else Inl FitzError),
      doc_to_rgb = (\<lambda>p. Inl FitzError),
      doc_drop_alpha = (\<lambda>p. p\<lparr>pix_n := 3\<rparr>)\<rparr>"

section \<open>Properties\<close>

subsection \<open>The driver never raises\<close>

lemma label_loop_ok:
  "\<forall>w\<in>set ws. word_text w \<noteq> None \<Longrightarrow> \<exists>b. label_loop A c ws best = Inr b"
  by (induction ws arbitrary: best) (auto simp: Let_def)

lemma label_loop_fail:
  "\<exists>w\<in>set ws. word_text w = None \<Longrightarrow> label_loop A c ws best = Inl AttributeError"
  by (induction ws arbitrary: best) (auto simp: Let_def split: option.splits)










subsection \<open>The run on the small brochure\<close>

lemma brochure_run:
  "main brochure {} =
     Inr \<lparr>exit_code = 0,
          printed = [''Done. Matched swatches: 1, Unlabeled (swatches_raw): 1'', hint_message],
          final = \<lparr>dirs = {''swatches'', ''swatches_raw'', ''swatches/Timberline HDZ''},
                   writes = [(''swatches/Timberline HDZ/Barkwood.png'', swatch_pix\<lparr>pix_n := 3\<rparr>),
                             (''swatches_raw/page01_xref2_w300_h300.png'', swatch_pix\<lparr>pix_n := 3\<rparr>)],
                   decodes = [2, 2, 3], saved_swatches = 1, saved_raw = 1\<rparr>\<rparr>"
  by code_simp

subsection \<open>Missing input document\<close>

text \<open>
  Claim C6. If the input document does not exist at the configured path, the run prints
  the diagnostic message and exits with status 1 (non-zero); the directories of the file
  system are the ones it started with and no file has been written.
\<close>

theorem missing_document_exits:
  "\<not> doc_exists doc \<Longrightarrow>
     (\<exists>out. main doc dirs0 = Inr out \<and> exit_code out = 1 \<and> exit_code out \<noteq> 0
        \<and> printed out = [missing_message]
        \<and> dirs (final out) = dirs0 \<and> writes (final out) = [] \<and> decodes (final out) = [])
     \<and> missing_message =
         ''ERROR: assets/brochure.pdf not found. Upload your brochure PDF to assets/brochure.pdf and re-run.''"
  by (simp add: main_def missing_message_def PDF_PATH_def fresh_state_def)

theorem missing_document_exits_witness:
  "\<not> doc_exists (brochure\<lparr>doc_exists := False\<rparr>)
   \<and> (\<exists>out. main (brochure\<lparr>doc_exists := False\<rparr>) {''elsewhere''} = Inr out
          \<and> exit_code out = 1 \<and> printed out = [missing_message]
          \<and> dirs (final out) = {''elsewhere''} \<and> writes (final out) = [])"
proof -
  have h: "\<not> doc_exists (brochure\<lparr>doc_exists := False\<rparr>)" by simp
  from missing_document_exits[OF h, of "{''elsewhere''}"] h show ?thesis by blast
qed

subsection \<open>Channel conversion when saving\<close>



subsection \<open>Absent text\<close>

text \<open>
  Claim C10, as amended. \<open>norm\<close> applied to \<open>None\<close> returns the empty string, and series
  detection on an absent page text returns none without raising. Color lookup returns
  normally when every word has a text; a word whose text is absent makes it raise
  \<open>AttributeError\<close>, because the text is stripped before it reaches the normalizer.
\<close>

theorem norm_total_on_missing:
  "norm_text None = [] \<and> detect_series None = None
   \<and> ((\<forall>w\<in>set words. word_text w \<noteq> None) \<longrightarrow> (\<exists>g. nearest_color_label words r a = Inr g))
   \<and> ((\<exists>w\<in>set words. word_text w = None) \<longrightarrow> nearest_color_label words r a = Inl AttributeError)"
proof -
  have n: "norm_text None = []"
    by (simp add: norm_text_def strip_def lower_def)
  have d: "detect_series None = None"
    by code_simp
  have ok: "\<exists>g. nearest_color_label words r a = Inr g" if "\<forall>w\<in>set words. word_text w \<noteq> None"
  proof -
    from label_loop_ok[OF that]
    obtain b where "label_loop (allowed_set a) (rect_center r) words (None, 10 ^ 12) = Inr b"
      by blast
    then show ?thesis by (simp add: nearest_color_label_def)
  qed
  have bad: "nearest_color_label words r a = Inl AttributeError"
    if "\<exists>w\<in>set words. word_text w = None"
  proof -
    from that have "words \<noteq> []" by auto
    with label_loop_fail[OF that] show ?thesis by (simp add: nearest_color_label_def)
  qed
  from n d ok bad show ?thesis by blast
qed

text \<open>The claim as stated fails: a word without text makes the color lookup raise.\<close>

theorem color_lookup_absent_text_raises:
  "nearest_color_label [textless_word] tile_rect None = Inl AttributeError"
  by (simp add: nearest_color_label_def textless_word_def)

theorem norm_total_on_missing_witness:
  "norm_text None = [] \<and> detect_series None = None
   \<and> (\<exists>g. nearest_color_label [word_of barkwood_word] tile_rect None = Inr g)
   \<and> nearest_color_label [word_of barkwood_word, textless_word] tile_rect None
       = Inl AttributeError"
proof -
  have h1: "\<forall>w\<in>set [word_of barkwood_word]. word_text w \<noteq> None"
    by (simp add: word_of_def)
  have h2: "\<exists>w\<in>set [word_of barkwood_word, textless_word]. word_text w = None"
    by (simp add: textless_word_def)
  from norm_total_on_missing[of "[word_of barkwood_word]" tile_rect None] h1
       norm_total_on_missing[of "[word_of barkwood_word, textless_word]" tile_rect None] h2
  show ?thesis by blast
qed

subsection \<open>Rounding to binary64\<close>

lemma rhe_floor_le: "\<lfloor>q\<rfloor> \<le> round_half_even q"
  by (simp add: round_half_even_def Let_def)

lemma rhe_le_floor: "round_half_even q \<le> \<lfloor>q\<rfloor> + 1"
  by (simp add: round_half_even_def Let_def)

lemma rhe_of_int: "round_half_even (of_int n) = n"
  by (simp add: round_half_even_def Let_def)

lemma rhe_mono: "q \<le> q' \<Longrightarrow> round_half_even q \<le> round_half_even q'"
proof -
  assume le: "q \<le> q'"
  then have fl: "\<lfloor>q\<rfloor> \<le> \<lfloor>q'\<rfloor>" by (rule floor_mono)
  show ?thesis
  proof (cases "\<lfloor>q\<rfloor> = \<lfloor>q'\<rfloor>")
    case True
    with le show ?thesis
      by (auto simp: round_half_even_def Let_def)
  next
    case False
    with fl have "\<lfloor>q\<rfloor> + 1 \<le> \<lfloor>q'\<rfloor>" by simp
    with rhe_le_floor[of q] rhe_floor_le[of q'] show ?thesis by linarith
  qed
qed

lemma bitlen_rat_bounds:
  assumes "0 < a"
  shows "(2::rat) powi (bitlen a - 1) \<le> of_int a" and "of_int a < (2::rat) powi bitlen a"
proof -
  from assms have l1: "1 \<le> bitlen a" by (auto simp: bitlen_alt_def) 
  from bitlen_bounds[OF assms] have lo: "2 ^ nat (bitlen a - 1) \<le> a" and hi: "a < 2 ^ nat (bitlen a)"
    by auto
  from lo have "(of_int (2 ^ nat (bitlen a - 1)) :: rat) \<le> of_int a"
    by (simp only: of_int_le_iff)
  with l1 show "(2::rat) powi (bitlen a - 1) \<le> of_int a"
    by (simp add: power_int_def)
  from hi have "(of_int a :: rat) < of_int (2 ^ nat (bitlen a))"
    by (simp only: of_int_less_iff)
  with l1 show "of_int a < (2::rat) powi bitlen a"
    by (simp add: power_int_def)
qed

lemma binexp_bounds:
  assumes "x \<noteq> 0"
  shows "2 powi binexp x \<le> \<bar>x\<bar>" and "\<bar>x\<bar> < 2 powi (binexp x + 1)"
proof -
  obtain a b where q: "quotient_of \<bar>x\<bar> = (a, b)" by (cases "quotient_of \<bar>x\<bar>")
  then have b: "0 < b" by (rule quotient_of_denom_pos)
  from q have x: "\<bar>x\<bar> = of_int a / of_int b" by (rule quotient_of_div)
  from assms have "0 < \<bar>x\<bar>" by simp
  with x b have a: "0 < a" by (simp add: zero_less_divide_iff)
  let ?d = "bitlen a - bitlen b"
  have lo: "(2::rat) powi (?d - 1) \<le> \<bar>x\<bar>"
  proof -
    have "(2::rat) powi (?d - 1) = 2 powi (bitlen a - 1) / 2 powi bitlen b"
      by (simp add: power_int_diff)
    also have "\<dots> \<le> of_int a / of_int b"
      using bitlen_rat_bounds(1)[OF a] bitlen_rat_bounds(2)[OF b] a b
      by (intro frac_le) auto
    finally show ?thesis by (simp add: x)
  qed
  have hi: "\<bar>x\<bar> < (2::rat) powi (?d + 1)"
  proof -
    have "of_int a / of_int b < (2::rat) powi bitlen a / 2 powi (bitlen b - 1)"
      using bitlen_rat_bounds(2)[OF a] bitlen_rat_bounds(1)[OF b] a b
      by (intro frac_less) auto
    also have "\<dots> = 2 powi (?d + 1)"
      by (simp add: power_int_diff power_int_add)
    finally show ?thesis by (simp add: x)
  qed
  show "2 powi binexp x \<le> \<bar>x\<bar>"
    using lo by (simp add: binexp_def q Let_def)
  show "\<bar>x\<bar> < 2 powi (binexp x + 1)"
    using hi by (auto simp: binexp_def q Let_def)
qed

lemma powi2_less_iff: "(2::rat) powi m < 2 powi n \<longleftrightarrow> m < n"
proof
  assume "(2::rat) powi m < 2 powi n"
  then show "m < n"
    using power_int_increasing[of n m "2::rat"] by (cases "m < n") auto
next
  assume "m < n"
  then show "(2::rat) powi m < 2 powi n"
    by (intro power_int_strict_increasing) auto
qed

lemma powi2_le_iff: "(2::rat) powi m \<le> 2 powi n \<longleftrightarrow> m \<le> n"
  using powi2_less_iff[of n m] by (auto simp: not_less[symmetric])

lemma binexp_unique:
  assumes "2 powi e \<le> \<bar>x\<bar>" and "\<bar>x\<bar> < 2 powi (e + 1)"
  shows "binexp x = e"
proof -
  have "(0::rat) < 2 powi e" by simp
  with assms(1) have "0 < \<bar>x\<bar>" by linarith
  then have nz: "x \<noteq> 0" by auto
  from binexp_bounds[OF nz] assms
  have "(2::rat) powi e < 2 powi (binexp x + 1)" and "(2::rat) powi binexp x < 2 powi (e + 1)"
    by linarith+
  then show ?thesis by (simp add: powi2_less_iff)
qed


lemma powi2_add: "(2::rat) powi (a + b) = 2 powi a * 2 powi b"
  by (rule power_int_add) simp

lemma powi2_52: "(2::rat) powi 52 = of_int (2 ^ 52)" and powi2_53: "(2::rat) powi 53 = of_int (2 ^ 53)"
  by simp_all

lemma fl64_zero: "fl64 0 = 0"
  by (simp add: fl64_def Let_def round_half_even_def)

lemma fl64_in_binade:
  assumes "2 powi e \<le> x" and "x < 2 powi (e + 1)" and "- 1022 \<le> e"
  shows "fl64 x = of_int (round_half_even (x * 2 powi (52 - e))) * 2 powi (e - 52)"
    and "2 powi e \<le> fl64 x" and "fl64 x \<le> 2 powi (e + 1)"
proof -
  have pos: "0 < x" using assms(1) zero_less_power_int[of "2::rat" e] by linarith
  then have ax: "\<bar>x\<bar> = x" by simp
  have be: "binexp x = e" using assms(1,2) by (intro binexp_unique) (simp_all add: ax)
  with assms(3) show eq: "fl64 x = of_int (round_half_even (x * 2 powi (52 - e))) * 2 powi (e - 52)"
    by (simp add: fl64_def Let_def max_def)
  have sc: "(0::rat) < 2 powi (52 - e)" by simp
  have e52: "(2::rat) powi e * 2 powi (52 - e) = of_int (2 ^ 52)"
    using powi2_add[of e "52 - e"] by (simp only: powi2_52[symmetric]) simp
  have e53: "(2::rat) powi (e + 1) * 2 powi (52 - e) = of_int (2 ^ 53)"
    using powi2_add[of "e + 1" "52 - e"] by (simp only: powi2_53[symmetric]) simp
  have "of_int (2 ^ 52) \<le> x * 2 powi (52 - e)"
    using assms(1) sc e52 by (metis mult_right_mono less_imp_le)
  from rhe_mono[OF this] have lo: "2 ^ 52 \<le> round_half_even (x * 2 powi (52 - e))"
    by (simp only: rhe_of_int)
  have "x * 2 powi (52 - e) \<le> of_int (2 ^ 53)"
    using assms(2) sc e53 by (metis mult_right_mono less_imp_le)
  from rhe_mono[OF this] have hi: "round_half_even (x * 2 powi (52 - e)) \<le> 2 ^ 53"
    by (simp only: rhe_of_int)
  have bpos: "(0::rat) < 2 powi (e - 52)" by simp
  have "(2::rat) powi e = of_int (2 ^ 52) * 2 powi (e - 52)"
    using powi2_add[of 52 "e - 52"] by (simp only: powi2_52[symmetric]) simp
  also have "\<dots> \<le> of_int (round_half_even (x * 2 powi (52 - e))) * 2 powi (e - 52)"
    using lo bpos by (intro mult_right_mono) (simp_all only: of_int_le_iff less_imp_le)
  finally show "2 powi e \<le> fl64 x" by (simp only: eq)
  have "of_int (round_half_even (x * 2 powi (52 - e))) * 2 powi (e - 52)
          \<le> of_int (2 ^ 53) * (2::rat) powi (e - 52)"
    using hi bpos by (intro mult_right_mono) (simp_all only: of_int_le_iff less_imp_le)
  also have "\<dots> = 2 powi (e + 1)"
  proof -
    have "53 + (e - 52) = e + 1" by simp
    with powi2_add[of 53 "e - 52"] show ?thesis by (simp only: powi2_53[symmetric])
  qed
  finally show "fl64 x \<le> 2 powi (e + 1)" by (simp only: eq)
qed


lemma fl64_nonneg: "0 \<le> x \<Longrightarrow> 0 \<le> fl64 x"
proof -
  assume x: "0 \<le> x"
  let ?e = "max (binexp x) (- 1022)"
  have "0 \<le> x * 2 powi (52 - ?e)" using x by simp
  then have "0 \<le> \<lfloor>x * 2 powi (52 - ?e)\<rfloor>" by simp
  with rhe_floor_le[of "x * 2 powi (52 - ?e)"]
  have "0 \<le> round_half_even (x * 2 powi (52 - ?e))" by linarith
  then show ?thesis by (simp add: fl64_def Let_def)
qed

lemma binexp_mono:
  assumes "0 < x" and "x \<le> y"
  shows "binexp x \<le> binexp y"
proof -
  from assms have nz: "x \<noteq> 0" "y \<noteq> 0" by auto
  from binexp_bounds(1)[OF nz(1)] binexp_bounds(2)[OF nz(2)] assms
  have "(2::rat) powi binexp x < 2 powi (binexp y + 1)" by simp
  then show ?thesis by (simp add: powi2_less_iff)
qed

lemma fl64_mono:
  assumes "0 \<le> x" and "x \<le> y"
  shows "fl64 x \<le> fl64 y"
proof (cases "x = 0")
  case True
  with assms fl64_nonneg[of y] show ?thesis by (simp add: fl64_zero)
next
  case False
  with assms have xpos: "0 < x" and ypos: "0 < y" by auto
  let ?ex = "max (binexp x) (- 1022)" and ?ey = "max (binexp y) (- 1022)"
  have fx: "fl64 x = of_int (round_half_even (x * 2 powi (52 - ?ex))) * 2 powi (?ex - 52)"
    and fy: "fl64 y = of_int (round_half_even (y * 2 powi (52 - ?ey))) * 2 powi (?ey - 52)"
    by (simp_all add: fl64_def Let_def)
  from binexp_mono[OF xpos assms(2)] have ee: "?ex \<le> ?ey" by simp
  show ?thesis
  proof (cases "?ex = ?ey")
    case True
    have "x * 2 powi (52 - ?ey) \<le> y * 2 powi (52 - ?ey)"
      using assms(2) by (intro mult_right_mono) simp_all
    from rhe_mono[OF this]
    have "(of_int (round_half_even (x * 2 powi (52 - ?ey))) :: rat) * 2 powi (?ey - 52)
            \<le> of_int (round_half_even (y * 2 powi (52 - ?ey))) * 2 powi (?ey - 52)"
      by (intro mult_right_mono) simp_all
    then show ?thesis by (simp only: fx fy True)
  next
    case False
    from ee False have lt: "?ex < ?ey" by (rule le_neq_trans)
    have ey: "?ey = binexp y" and big: "- 1022 \<le> binexp y"
      using lt unfolding max_def by (auto split: if_splits)
    from ypos have ay: "\<bar>y\<bar> = y" by simp
    from binexp_bounds[of y] ypos ay
    have yb: "2 powi binexp y \<le> y" "y < 2 powi (binexp y + 1)" by auto
    from fl64_in_binade(2)[OF yb big] have ylo: "2 powi ?ey \<le> fl64 y" by (simp only: ey)
    from xpos have ax: "\<bar>x\<bar> = x" by simp
    from binexp_bounds(2)[of x] xpos ax have "x < 2 powi (binexp x + 1)" by auto
    also have "\<dots> \<le> 2 powi (?ex + 1)" by (simp add: powi2_le_iff)
    finally have xhi: "x \<le> 2 powi (?ex + 1)" by simp
    have "x * 2 powi (52 - ?ex) \<le> 2 powi (?ex + 1) * 2 powi (52 - ?ex)"
      using xhi by (intro mult_right_mono) simp_all
    also have "\<dots> = of_int (2 ^ 53)"
    proof -
      have "?ex + 1 + (52 - ?ex) = 53" by simp
      with powi2_add[of "?ex + 1" "52 - ?ex"] show ?thesis by (simp only: powi2_53[symmetric])
    qed
    finally have "x * 2 powi (52 - ?ex) \<le> of_int (2 ^ 53)" .
    from rhe_mono[OF this] have "round_half_even (x * 2 powi (52 - ?ex)) \<le> 2 ^ 53"
      by (simp only: rhe_of_int)
    then have "(of_int (round_half_even (x * 2 powi (52 - ?ex))) :: rat) * 2 powi (?ex - 52)
                 \<le> of_int (2 ^ 53) * 2 powi (?ex - 52)"
      by (intro mult_right_mono) (simp_all only: of_int_le_iff zero_le_power_int zero_le_numeral)
    also have "\<dots> = 2 powi (?ex + 1)"
    proof -
      have "53 + (?ex - 52) = ?ex + 1" by simp
      with powi2_add[of 53 "?ex - 52"] show ?thesis by (simp only: powi2_53[symmetric])
    qed
    also have "\<dots> \<le> 2 powi ?ey" using lt by (simp only: powi2_le_iff)
    finally have "fl64 x \<le> 2 powi ?ey" by (simp only: fx)
    with ylo show ?thesis by linarith
  qed
qed



lemma fl64_of_int:
  assumes "0 < n" and "n < 2 ^ 53"
  shows "fl64 (of_int n) = of_int n"
proof -
  let ?x = "of_int n :: rat"
  let ?e = "binexp ?x"
  from assms have nz: "?x \<noteq> 0" and ax: "\<bar>?x\<bar> = ?x" by simp_all
  from binexp_bounds[OF nz] ax have lo: "2 powi ?e \<le> ?x" and hi: "?x < 2 powi (?e + 1)" by simp_all
  have "(2::rat) powi 0 \<le> ?x" using assms(1) by simp
  with hi have "(2::rat) powi 0 < 2 powi (?e + 1)" by linarith
  then have e0: "0 \<le> ?e" by (simp only: powi2_less_iff)
  have "?x < of_int (2 ^ 53)" using assms(2) by (simp only: of_int_less_iff)
  then have "?x < 2 powi 53" by simp
  with lo have "(2::rat) powi ?e < 2 powi 53" by linarith
  then have e52: "?e \<le> 52" by (simp only: powi2_less_iff)
  have sc: "(2::rat) powi (52 - ?e) = of_int (2 ^ nat (52 - ?e))"
    using e52 by (simp add: power_int_def)
  have "?x * 2 powi (52 - ?e) = of_int (n * 2 ^ nat (52 - ?e))"
    by (simp only: sc of_int_mult)
  then have r: "round_half_even (?x * 2 powi (52 - ?e)) = n * 2 ^ nat (52 - ?e)"
    by (simp only: rhe_of_int)
  have "52 - ?e + (?e - 52) = 0" by simp
  with powi2_add[of "52 - ?e" "?e - 52"] have one: "(2::rat) powi (52 - ?e) * 2 powi (?e - 52) = 1"
    by simp
  have "fl64 ?x = of_int (n * 2 ^ nat (52 - ?e)) * 2 powi (?e - 52)"
    using fl64_in_binade(1)[OF lo hi] e0 r by simp
  also have "\<dots> = ?x * (2 powi (52 - ?e) * 2 powi (?e - 52))"
    by (simp only: of_int_mult sc mult.assoc)
  finally show ?thesis by (simp only: one mult_1_right)
qed

lemma lo_gap: "fl64 (17 / 20 - 1 / (20 * 2 ^ 31)) < fl64 (85 / 100)"
  by code_simp

lemma hi_gap: "fl64 (118 / 100) < fl64 (59 / 50 + 1 / (50 * 2 ^ 31))"
  by code_simp

subsection \<open>Geometry filter\<close>

text \<open>
  A pixel dimension below \<open>2\<^sup>3\<^sup>1\<close> is a float, and two ratios of such dimensions on
  different sides of 0.85 (or of 1.18) are further apart than the rounding can bridge.
\<close>

lemma ratio_below_lo:
  fixes w h :: int
  assumes "0 < h" and "h < 2 ^ 31" and "(of_int w :: rat) / of_int h < 85 / 100"
  shows "(of_int w :: rat) / of_int h \<le> 17 / 20 - 1 / (20 * 2 ^ 31)"
proof -
  from assms(1,3) have "(of_int w :: rat) * 20 < 17 * of_int h"
    by (simp add: field_simps)
  then have "(of_int (w * 20) :: rat) < of_int (17 * h)" by simp
  then have "w * 20 < 17 * h" by (simp only: of_int_less_iff)
  then have "w * 20 + 1 \<le> 17 * h" by simp
  then have "(of_int (w * 20 + 1) :: rat) \<le> of_int (17 * h)" by (simp only: of_int_le_iff)
  then have a: "(of_int w :: rat) * 20 + 1 \<le> 17 * of_int h" by simp
  have "(of_int h :: rat) \<le> 2 ^ 31" using assms(2) by (simp flip: of_int_less_iff)
  then have b: "1 / (20 * 2 ^ 31) \<le> 1 / (20 * (of_int h :: rat))"
    using assms(1) by (intro divide_left_mono) simp_all
  have "(of_int w :: rat) / of_int h \<le> 17 / 20 - 1 / (20 * of_int h)"
    using a assms(1) by (simp add: field_simps)
  with b show ?thesis by linarith
qed

lemma ratio_above_hi:
  fixes w h :: int
  assumes "0 < h" and "h < 2 ^ 31" and "118 / 100 < (of_int w :: rat) / of_int h"
  shows "59 / 50 + 1 / (50 * 2 ^ 31) \<le> (of_int w :: rat) / of_int h"
proof -
  from assms(1,3) have "59 * (of_int h :: rat) < of_int w * 50"
    by (simp add: field_simps)
  then have "(of_int (59 * h) :: rat) < of_int (w * 50)" by simp
  then have "59 * h < w * 50" by (simp only: of_int_less_iff)
  then have "59 * h + 1 \<le> w * 50" by simp
  then have "(of_int (59 * h + 1) :: rat) \<le> of_int (w * 50)" by (simp only: of_int_le_iff)
  then have a: "59 * (of_int h :: rat) + 1 \<le> of_int w * 50" by simp
  have "(of_int h :: rat) \<le> 2 ^ 31" using assms(2) by (simp flip: of_int_less_iff)
  then have b: "1 / (50 * 2 ^ 31) \<le> 1 / (50 * (of_int h :: rat))"
    using assms(1) by (intro divide_left_mono) simp_all
  have "59 / 50 + 1 / (50 * (of_int h :: rat)) = (59 * of_int h + 1) / (50 * of_int h)"
    using assms(1) by (simp add: field_simps)
  also have "\<dots> \<le> (of_int w * 50) / (50 * of_int h)"
    using a assms(1) by (intro divide_right_mono) simp_all
  also have "\<dots> = (of_int w :: rat) / of_int h" by simp
  finally have "59 / 50 + 1 / (50 * of_int h) \<le> (of_int w :: rat) / of_int h" .
  with b show ?thesis by linarith
qed

lemma aspect_ratio_test:
  fixes w h :: int
  assumes w: "180 \<le> w" "w < 2 ^ 31" and h: "180 \<le> h" "h < 2 ^ 31"
  shows "fl64 (85 / 100) \<le> fdiv (fl64 (of_int w)) (fl64 (of_int h))
           \<longleftrightarrow> 85 / 100 \<le> (of_int w :: rat) / of_int h"
    and "fdiv (fl64 (of_int w)) (fl64 (of_int h)) \<le> fl64 (118 / 100)
           \<longleftrightarrow> (of_int w :: rat) / of_int h \<le> 118 / 100"
proof -
  let ?q = "(of_int w :: rat) / of_int h"
  from w h have ew: "fl64 (of_int w) = of_int w" and eh: "fl64 (of_int h) = of_int h"
    by (auto intro!: fl64_of_int)
  have ar: "fdiv (fl64 (of_int w)) (fl64 (of_int h)) = fl64 ?q"
    by (simp only: fdiv_def ew eh)
  from w h have q0: "0 \<le> ?q" by simp
  from h have hpos: "0 < h" by simp
  show "fl64 (85 / 100) \<le> fdiv (fl64 (of_int w)) (fl64 (of_int h)) \<longleftrightarrow> 85 / 100 \<le> ?q"
  proof
    assume a: "fl64 (85 / 100) \<le> fdiv (fl64 (of_int w)) (fl64 (of_int h))"
    show "85 / 100 \<le> ?q"
    proof (rule ccontr)
      assume "\<not> 85 / 100 \<le> ?q"
      then have "?q < 85 / 100" by simp
      from ratio_below_lo[OF hpos h(2) this] have "?q \<le> 17 / 20 - 1 / (20 * 2 ^ 31)" .
      from fl64_mono[OF q0 this] lo_gap a ar show False by linarith
    qed
  next
    assume "85 / 100 \<le> ?q"
    then have "fl64 (85 / 100) \<le> fl64 ?q" by (intro fl64_mono) simp_all
    then show "fl64 (85 / 100) \<le> fdiv (fl64 (of_int w)) (fl64 (of_int h))" by (simp only: ar)
  qed
  show "fdiv (fl64 (of_int w)) (fl64 (of_int h)) \<le> fl64 (118 / 100) \<longleftrightarrow> ?q \<le> 118 / 100"
  proof
    assume a: "fdiv (fl64 (of_int w)) (fl64 (of_int h)) \<le> fl64 (118 / 100)"
    show "?q \<le> 118 / 100"
    proof (rule ccontr)
      assume "\<not> ?q \<le> 118 / 100"
      then have "118 / 100 < ?q" by simp
      from ratio_above_hi[OF hpos h(2) this] have b: "59 / 50 + 1 / (50 * 2 ^ 31) \<le> ?q" .
      have "fl64 (59 / 50 + 1 / (50 * 2 ^ 31)) \<le> fl64 ?q" using b by (intro fl64_mono) simp_all
      with hi_gap a ar show False by linarith
    qed
  next
    assume "?q \<le> 118 / 100"
    from fl64_mono[OF q0 this]
    show "fdiv (fl64 (of_int w)) (fl64 (of_int h)) \<le> fl64 (118 / 100)" by (simp only: ar)
  qed
qed

text \<open>
  Claim C2. For all pixel dimensions (the library stores them in 32-bit integers), the
  geometry filter returns true exactly when width and height are both at least 180 and
  the exact ratio width / height lies in the closed interval from 0.85 to 1.18. So it is
  false when a dimension is below 180 or the ratio is outside the band, and true at the
  boundary ratios 0.85 and 1.18 themselves.
\<close>

theorem is_square_swatch_band:
  assumes "pix_width pix < 2 ^ 31" and "pix_height pix < 2 ^ 31"
  shows "is_square_swatch pix \<longleftrightarrow>
           180 \<le> pix_width pix \<and> 180 \<le> pix_height pix
           \<and> 85 / 100 \<le> (of_int (pix_width pix) :: rat) / of_int (pix_height pix)
           \<and> (of_int (pix_width pix) :: rat) / of_int (pix_height pix) \<le> 118 / 100"
proof (cases "pix_width pix < 180 \<or> pix_height pix < 180")
  case True
  then show ?thesis by (auto simp: is_square_swatch_def Let_def)
next
  case False
  then have w: "180 \<le> pix_width pix" and h: "180 \<le> pix_height pix" by auto
  from aspect_ratio_test[OF w assms(1) h assms(2)] False w h
  show ?thesis by (simp add: is_square_swatch_def Let_def)
qed

theorem is_square_swatch_band_witness:
  "is_square_swatch \<lparr>pix_width = 340, pix_height = 400, pix_n = 3, pix_samples = 0\<rparr>
   \<and> is_square_swatch \<lparr>pix_width = 590, pix_height = 500, pix_n = 3, pix_samples = 0\<rparr>
   \<and> is_square_swatch \<lparr>pix_width = 180, pix_height = 180, pix_n = 3, pix_samples = 0\<rparr>
   \<and> \<not> is_square_swatch \<lparr>pix_width = 339, pix_height = 400, pix_n = 3, pix_samples = 0\<rparr>
   \<and> \<not> is_square_swatch \<lparr>pix_width = 591, pix_height = 500, pix_n = 3, pix_samples = 0\<rparr>
   \<and> \<not> is_square_swatch \<lparr>pix_width = 179, pix_height = 200, pix_n = 3, pix_samples = 0\<rparr>
   \<and> \<not> is_square_swatch \<lparr>pix_width = 400, pix_height = 200, pix_n = 3, pix_samples = 0\<rparr>"
proof -
  have a: "is_square_swatch \<lparr>pix_width = 340, pix_height = 400, pix_n = 3, pix_samples = 0\<rparr>"
    using is_square_swatch_band[of "\<lparr>pix_width = 340, pix_height = 400, pix_n = 3, pix_samples = 0\<rparr>"]
    by simp
  have b: "is_square_swatch \<lparr>pix_width = 590, pix_height = 500, pix_n = 3, pix_samples = 0\<rparr>"
    using is_square_swatch_band[of "\<lparr>pix_width = 590, pix_height = 500, pix_n = 3, pix_samples = 0\<rparr>"]
    by simp
  have c: "is_square_swatch \<lparr>pix_width = 180, pix_height = 180, pix_n = 3, pix_samples = 0\<rparr>"
    using is_square_swatch_band[of "\<lparr>pix_width = 180, pix_height = 180, pix_n = 3, pix_samples = 0\<rparr>"]
    by simp
  have d: "\<not> is_square_swatch \<lparr>pix_width = 339, pix_height = 400, pix_n = 3, pix_samples = 0\<rparr>"
    using is_square_swatch_band[of "\<lparr>pix_width = 339, pix_height = 400, pix_n = 3, pix_samples = 0\<rparr>"]
    by simp
  have e: "\<not> is_square_swatch \<lparr>pix_width = 591, pix_height = 500, pix_n = 3, pix_samples = 0\<rparr>"
    using is_square_swatch_band[of "\<lparr>pix_width = 591, pix_height = 500, pix_n = 3, pix_samples = 0\<rparr>"]
    by simp
  have f: "\<not> is_square_swatch \<lparr>pix_width = 179, pix_height = 200, pix_n = 3, pix_samples = 0\<rparr>"
    using is_square_swatch_band[of "\<lparr>pix_width = 179, pix_height = 200, pix_n = 3, pix_samples = 0\<rparr>"]
    by simp
  have g: "\<not> is_square_swatch \<lparr>pix_width = 400, pix_height = 200, pix_n = 3, pix_samples = 0\<rparr>"
    using is_square_swatch_band[of "\<lparr>pix_width = 400, pix_height = 200, pix_n = 3, pix_samples = 0\<rparr>"]
    by simp
  from a b c d e f g show ?thesis by blast
qed

subsection \<open>Color locator\<close>
















subsection \<open>Series detector\<close>












subsection \<open>Output paths\<close>
















lemma process_rect_skip:
  "\<not> is_square_swatch pix \<Longrightarrow> process_rect doc sh words pidx xref pix r st = Inr st"
  by (simp add: process_rect_def)







end
